theory Spec2Isabelle
  imports Complex_Main "HOL-Library.Word"
begin

section \<open>Data model shared by the two TTS servers\<close>

text \<open>
  The repository holds two Flask services with a \<open>/synthesize\<close> handler:
  \<^verbatim>\<open>workers/tts-server/server.py\<close> (several models, loaded lazily, speed applied) and
  \<^verbatim>\<open>workers/piper-tts/server.py\<close> (one model loaded at start-up, no speed).
  Both are embedded below as state-passing functions. The state holds the files of the
  cache directory, the dictionary \<open>loaded_models\<close>, and a trace of the calls made to the
  collaborators (file system, Piper, \<open>wave\<close>), which only records what happened.

  Python floats are idealised as rationals: \<open>1.0/speed\<close> and \<open>frames / float(rate)\<close> are
  exact quotients, and \<open>round(x, 2)\<close> rounds an exact quotient to the nearest hundredth,
  ties to even. Audio is a list of bytes.
\<close>

type_synonym pyfloat = rat
type_synonym bytes = "8 word list"

text \<open>A JSON value as \<open>request.json\<close> delivers it; arrays and objects are not looked into.\<close>

datatype json = JNull | JBool bool | JNum pyfloat | JStr string | JCompound

text \<open>
  Exceptions. \<open>FileNotFoundError\<close> carries the message \<open>load_model\<close> builds, or the path
  that \<open>open\<close> did not find; \<open>External\<close> is any exception raised inside a collaborator,
  with its \<open>str(e)\<close>.
\<close>

datatype exn =
    FileNotFoundError string
  | ZeroDivisionError
  | ValueError
  | TypeError
  | External string

text \<open>
  The bodies considered have \<open>text\<close> and \<open>model\<close> absent or a JSON string, and
  \<open>use_cache\<close> absent or a JSON boolean; \<open>speed\<close> is absent or any JSON value, since the
  handler coerces it. \<open>None\<close> is an absent key.
\<close>

record body =
  text_field :: "string option"
  model_field :: "string option"
  speed_field :: "json option"
  use_cache_field :: "bool option"

text \<open>
  \<open>Ok200\<close> is the JSON answer with \<open>audio\<close> (hex), \<open>duration_sec\<close>, \<open>model\<close> (absent in
  piper-tts) and \<open>cached\<close>. \<open>Error400\<close> and \<open>Error500\<close> are the handler's own
  \<open>jsonify({'error': ...})\<close> answers; \<open>Uncaught\<close> is an exception that leaves the view
  function, which Flask answers with its generic 500 page.
\<close>

datatype response =
    Ok200 string pyfloat "string option" bool
  | Error400 string
  | Error500 exn
  | Uncaught exn

datatype 'v event =
    ModelFileExists string
  | PiperLoad string
  | Synthesize 'v string pyfloat
  | SynthesizeWav 'v string
  | CacheExists string
  | CacheRead string
  | CacheWaveOpen string
  | CacheMakedirs
  | CacheWrite string bytes

record 'v state =
  cache_dir :: "string \<rightharpoonup> bytes"
  loaded_models :: "string \<rightharpoonup> 'v"
  trace :: "'v event list"

text \<open>
  What the handlers take from outside the repository: the digests of \<open>hashlib\<close>, Python's
  float formatting and parsing, path joining under \<open>MODELS_DIR\<close> and \<open>CACHE_DIR\<close>, the
  model files present, Piper itself, and the header reader of \<open>wave\<close>.
  \<open>voice_synthesize\<close> and \<open>voice_synthesize_wav\<close> give the outcome of the whole
  \<open>with wave.open(buffer, 'wb')\<close> block followed by \<open>getvalue()\<close>;
  \<open>wave_write_exit e\<close> is the exception that leaves that block when its body raised \<open>e\<close>
  before Piper was entered (closing a writer without a header raises in turn);
  \<open>wave_open\<close> gives \<open>getnframes()\<close> and \<open>getframerate()\<close> of a byte sequence.
\<close>

record 'v env =
  md5_hexdigest :: "string \<Rightarrow> string"
  sha256_hexdigest :: "string \<Rightarrow> string"
  str_float :: "pyfloat \<Rightarrow> string"
  parse_float :: "string \<Rightarrow> pyfloat option"
  models_dir_path :: "string \<Rightarrow> string"
  cache_dir_path :: "string \<Rightarrow> string"
  model_file_exists :: "string \<Rightarrow> bool"
  PiperVoice_load :: "string \<Rightarrow> exn + 'v"
  startup_voice :: "'v"
  voice_synthesize :: "'v \<Rightarrow> string \<Rightarrow> pyfloat \<Rightarrow> exn + bytes"
  voice_synthesize_wav :: "'v \<Rightarrow> string \<Rightarrow> exn + bytes"
  wave_write_exit :: "exn \<Rightarrow> exn"
  wave_open :: "bytes \<Rightarrow> exn + nat \<times> nat"

definition emit :: "'v event \<Rightarrow> 'v state \<Rightarrow> 'v state" where
  "emit e st = st\<lparr>trace := trace st @ [e]\<rparr>"

text \<open>\<open>open(cache_file, 'wb')\<close> followed by \<open>f.write(audio_data)\<close>.\<close>

definition write_cache_file :: "string \<Rightarrow> bytes \<Rightarrow> 'v state \<Rightarrow> 'v state" where
  "write_cache_file cache_file audio_data st =
     (emit (CacheWrite cache_file audio_data) st)
       \<lparr>cache_dir := (cache_dir st)(cache_file \<mapsto> audio_data)\<rparr>"

definition new_events :: "'v state \<Rightarrow> 'v state \<Rightarrow> 'v event list" where
  "new_events st st' = drop (length (trace st)) (trace st')"

fun is_cache_event :: "'v event \<Rightarrow> bool" where
  "is_cache_event (CacheExists f) = True"
| "is_cache_event (CacheRead f) = True"
| "is_cache_event (CacheWaveOpen f) = True"
| "is_cache_event CacheMakedirs = True"
| "is_cache_event (CacheWrite f b) = True"
| "is_cache_event e = False"

fun is_model_event :: "'v event \<Rightarrow> bool" where
  "is_model_event (ModelFileExists p) = True"
| "is_model_event (PiperLoad p) = True"
| "is_model_event e = False"

fun is_synthesis_event :: "'v event \<Rightarrow> bool" where
  "is_synthesis_event (Synthesize v t l) = True"
| "is_synthesis_event (SynthesizeWav v t) = True"
| "is_synthesis_event e = False"

subsection \<open>Python built-ins used by the handlers\<close>

text \<open>\<open>float(x)\<close> on a JSON value: numbers and booleans convert, a string is parsed or
  raises \<open>ValueError\<close>, \<open>None\<close> and containers raise \<open>TypeError\<close>.\<close>

definition py_float :: "'v env \<Rightarrow> json \<Rightarrow> exn + pyfloat" where
  "py_float env j =
     (case j of
        JNum x \<Rightarrow> Inr x
      | JBool b \<Rightarrow> Inr (if b then 1 else 0)
      | JStr s \<Rightarrow> (case parse_float env s of None \<Rightarrow> Inl ValueError | Some x \<Rightarrow> Inr x)
      | JNull \<Rightarrow> Inl TypeError
      | JCompound \<Rightarrow> Inl TypeError)"

text \<open>\<open>round(x, 2)\<close>: nearest multiple of 1/100, ties to the even one.\<close>

definition py_round2 :: "pyfloat \<Rightarrow> pyfloat" where
  "py_round2 x =
     (let y = x * 100; n = \<lfloor>y\<rfloor>; r = y - of_int n
      in of_int (if r < 1 / 2 then n
                 else if 1 / 2 < r then n + 1
                 else if even n then n else n + 1) / 100)"

text \<open>\<open>bytes.hex()\<close>: two lower-case hexadecimal digits per byte.\<close>

definition hexdigit :: "nat \<Rightarrow> char" where
  "hexdigit n = ''0123456789abcdef'' ! (n mod 16)"

definition hex :: "bytes \<Rightarrow> string" where
  "hex bs = concat (map (\<lambda>b. [hexdigit (unat b div 16), hexdigit (unat b mod 16)]) bs)"

text \<open>The duration computation both handlers repeat after \<open>wave.open\<close>:
  \<open>frames / float(rate)\<close>, which raises on a zero rate.\<close>

definition duration_of :: "nat \<times> nat \<Rightarrow> exn + pyfloat" where
  "duration_of fr =
     (case fr of (frames, rate) \<Rightarrow>
        if rate = 0 then Inl ZeroDivisionError else Inr (of_nat frames / of_nat rate))"

subsection \<open>Reading the request body\<close>

text \<open>\<open>data.get('model', 'en_US-lessac-medium')\<close>, \<open>data.get('speed', 1.0)\<close>,
  \<open>data.get('use_cache', True)\<close> and, in piper-tts, \<open>data.get('text', '')\<close>.\<close>

definition get_model :: "body \<Rightarrow> string" where
  "get_model data = (case model_field data of None \<Rightarrow> ''en_US-lessac-medium'' | Some m \<Rightarrow> m)"

definition get_speed :: "body \<Rightarrow> json" where
  "get_speed data = (case speed_field data of None \<Rightarrow> JNum 1 | Some j \<Rightarrow> j)"

definition get_use_cache :: "body \<Rightarrow> bool" where
  "get_use_cache data = (case use_cache_field data of None \<Rightarrow> True | Some b \<Rightarrow> b)"

definition get_text :: "body \<Rightarrow> string" where
  "get_text data = (case text_field data of None \<Rightarrow> [] | Some t \<Rightarrow> t)"

section \<open>workers/tts-server/server.py\<close>

text \<open>\<open>load_model\<close>: look the name up in \<open>loaded_models\<close>; otherwise test the model file,
  load it and register the voice.\<close>

definition load_model :: "'v env \<Rightarrow> string \<Rightarrow> 'v state \<Rightarrow> (exn + 'v) \<times> 'v state" where
  "load_model env model_name st =
     (case loaded_models st model_name of
        Some voice \<Rightarrow> (Inr voice, st)
      | None \<Rightarrow>
          let model_path = models_dir_path env (model_name @ ''.onnx'');
              st1 = emit (ModelFileExists model_path) st
          in if \<not> model_file_exists env model_path
             then (Inl (FileNotFoundError (''Model not found: '' @ model_path)), st1)
             else
               let st2 = emit (PiperLoad model_path) st1
               in (case PiperVoice_load env model_path of
                     Inl e \<Rightarrow> (Inl e, st2)
                   | Inr voice \<Rightarrow>
                       (Inr voice,
                        st2\<lparr>loaded_models := (loaded_models st2)(model_name \<mapsto> voice)\<rparr>)))"

text \<open>The string that is digested, and the cache file derived from it.\<close>

definition cache_key_input_tts :: "'v env \<Rightarrow> string \<Rightarrow> string \<Rightarrow> pyfloat \<Rightarrow> string" where
  "cache_key_input_tts env text model_name speed =
     text @ '':'' @ model_name @ '':'' @ str_float env speed"

definition cache_key_tts :: "'v env \<Rightarrow> string \<Rightarrow> string \<Rightarrow> pyfloat \<Rightarrow> string" where
  "cache_key_tts env text model_name speed =
     md5_hexdigest env (cache_key_input_tts env text model_name speed)"

definition cache_file_tts :: "'v env \<Rightarrow> string \<Rightarrow> string \<Rightarrow> pyfloat \<Rightarrow> string" where
  "cache_file_tts env text model_name speed =
     cache_dir_path env (cache_key_tts env text model_name speed @ ''.wav'')"

text \<open>The branch taken on a cache hit (lines 73 to 87): read the file, read its header
  again through \<open>wave.open(cache_file)\<close>, answer. Nothing here is inside \<open>try\<close>.\<close>

definition serve_cached_tts ::
  "'v env \<Rightarrow> string \<Rightarrow> string \<Rightarrow> 'v state \<Rightarrow> response \<times> 'v state" where
  "serve_cached_tts env model_name cache_file st =
     (let st1 = emit (CacheRead cache_file) st
      in case cache_dir st1 cache_file of
           None \<Rightarrow> (Uncaught (FileNotFoundError cache_file), st1)
         | Some audio_data \<Rightarrow>
             let st2 = emit (CacheWaveOpen cache_file) st1
             in (case wave_open env audio_data of
                   Inl e \<Rightarrow> (Uncaught e, st2)
                 | Inr fr \<Rightarrow>
                     (case duration_of fr of
                        Inl e \<Rightarrow> (Uncaught e, st2)
                      | Inr duration \<Rightarrow>
                          (Ok200 (hex audio_data) (py_round2 duration) (Some model_name) True,
                           st2))))"

text \<open>The \<open>try\<close> block (lines 90 to 119): every exception becomes a 500 answer.\<close>

definition synthesize_fresh_tts ::
  "'v env \<Rightarrow> string \<Rightarrow> string \<Rightarrow> pyfloat \<Rightarrow> bool \<Rightarrow> string \<Rightarrow> 'v state
     \<Rightarrow> response \<times> 'v state" where
  "synthesize_fresh_tts env text model_name speed use_cache cache_file st =
     (case load_model env model_name st of
        (Inl e, st1) \<Rightarrow> (Error500 e, st1)
      | (Inr voice, st1) \<Rightarrow>
          if speed = 0 then (Error500 (wave_write_exit env ZeroDivisionError), st1)
          else
            let st2 = emit (Synthesize voice text (1 / speed)) st1
            in (case voice_synthesize env voice text (1 / speed) of
                  Inl e \<Rightarrow> (Error500 e, st2)
                | Inr audio_data \<Rightarrow>
                    let st3 = (if use_cache then write_cache_file cache_file audio_data st2
                               else st2)
                    in (case wave_open env audio_data of
                          Inl e \<Rightarrow> (Error500 e, st3)
                        | Inr fr \<Rightarrow>
                            (case duration_of fr of
                               Inl e \<Rightarrow> (Error500 e, st3)
                             | Inr duration \<Rightarrow>
                                 (Ok200 (hex audio_data) (py_round2 duration)
                                    (Some model_name) False,
                                  st3)))))"

text \<open>The handler: read the fields (coercing \<open>speed\<close>), reject a missing or empty text,
  derive the cache file, then serve from the cache or synthesize.\<close>

definition synthesize_tts :: "'v env \<Rightarrow> body \<Rightarrow> 'v state \<Rightarrow> response \<times> 'v state" where
  "synthesize_tts env data st =
     (let text = text_field data;
          model_name = get_model data
      in case py_float env (get_speed data) of
           Inl e \<Rightarrow> (Uncaught e, st)
         | Inr speed \<Rightarrow>
             let use_cache = get_use_cache data
             in (case text of
                   None \<Rightarrow> (Error400 ''Missing text parameter'', st)
                 | Some txt \<Rightarrow>
                     if txt = [] then (Error400 ''Missing text parameter'', st)
                     else
                       let cache_file = cache_file_tts env txt model_name speed
                       in if use_cache
                          then
                            let st1 = emit (CacheExists cache_file) st
                            in if cache_dir st1 cache_file \<noteq> None
                               then serve_cached_tts env model_name cache_file st1
                               else synthesize_fresh_tts env txt model_name speed use_cache
                                      cache_file st1
                          else synthesize_fresh_tts env txt model_name speed use_cache
                                 cache_file st))"

section \<open>workers/piper-tts/server.py\<close>

definition cache_key_piper :: "'v env \<Rightarrow> string \<Rightarrow> string" where
  "cache_key_piper env text = sha256_hexdigest env text"

definition cache_file_piper :: "'v env \<Rightarrow> string \<Rightarrow> string" where
  "cache_file_piper env text = cache_dir_path env (cache_key_piper env text @ ''.wav'')"

text \<open>The cache-hit branch (lines 44 to 58).\<close>

definition serve_cached_piper :: "'v env \<Rightarrow> string \<Rightarrow> 'v state \<Rightarrow> response \<times> 'v state" where
  "serve_cached_piper env cache_file st =
     (let st1 = emit (CacheRead cache_file) st
      in case cache_dir st1 cache_file of
           None \<Rightarrow> (Uncaught (FileNotFoundError cache_file), st1)
         | Some audio_data \<Rightarrow>
             let st2 = emit (CacheWaveOpen cache_file) st1
             in (case wave_open env audio_data of
                   Inl e \<Rightarrow> (Uncaught e, st2)
                 | Inr fr \<Rightarrow>
                     (case duration_of fr of
                        Inl e \<Rightarrow> (Uncaught e, st2)
                      | Inr duration_sec \<Rightarrow>
                          (Ok200 (hex audio_data) (py_round2 duration_sec) None True, st2))))"

text \<open>The synthesis branch (lines 60 to 90): no \<open>try\<close>, the duration is computed before
  the cache file is written, and the voice is the one loaded at start-up.\<close>

definition synthesize_fresh_piper ::
  "'v env \<Rightarrow> string \<Rightarrow> bool \<Rightarrow> string \<Rightarrow> 'v state \<Rightarrow> response \<times> 'v state" where
  "synthesize_fresh_piper env text use_cache cache_file st =
     (let st1 = emit (SynthesizeWav (startup_voice env) text) st
      in case voice_synthesize_wav env (startup_voice env) text of
           Inl e \<Rightarrow> (Uncaught e, st1)
         | Inr audio_data \<Rightarrow>
             (case wave_open env audio_data of
                Inl e \<Rightarrow> (Uncaught e, st1)
              | Inr fr \<Rightarrow>
                  (case duration_of fr of
                     Inl e \<Rightarrow> (Uncaught e, st1)
                   | Inr duration_sec \<Rightarrow>
                       let st2 = (if use_cache
                                  then write_cache_file cache_file audio_data
                                         (emit CacheMakedirs st1)
                                  else st1)
                       in (Ok200 (hex audio_data) (py_round2 duration_sec) None False, st2))))"

definition synthesize_piper :: "'v env \<Rightarrow> body \<Rightarrow> 'v state \<Rightarrow> response \<times> 'v state" where
  "synthesize_piper env data st =
     (let text = get_text data;
          use_cache = get_use_cache data
      in if text = [] then (Error400 ''Text is required'', st)
         else
           let cache_file = cache_file_piper env text
           in if use_cache
              then
                let st1 = emit (CacheExists cache_file) st
                in if cache_dir st1 cache_file \<noteq> None
                   then serve_cached_piper env cache_file st1
                   else synthesize_fresh_piper env text use_cache cache_file st1
              else synthesize_fresh_piper env text use_cache cache_file st)"

section \<open>Several requests\<close>



text \<open>\<open>load_model\<close> called for a list of names in turn, the results dropped.\<close>

fun load_models :: "'v env \<Rightarrow> string list \<Rightarrow> 'v state \<Rightarrow> 'v state" where
  "load_models env [] st = st"
| "load_models env (name # rest) st = load_models env rest (snd (load_model env name st))"

text \<open>
  Requests that overlap. The servers are started with \<open>app.run\<close>, which serves each request
  in a thread of its own, and neither handler takes a lock. A handler in progress is at one
  of three points: it has arrived, it has evaluated \<open>use_cache and cache_file.exists()\<close>
  and is about to run the branch chosen, or it has answered. Each of the two moves is
  taken as one step here; a finer division only adds interleavings.
\<close>

datatype handler =
    Arrived_tts body
  | Cached_tts string string
  | Fresh_tts string string pyfloat bool string
  | Arrived_piper body
  | Cached_piper string
  | Fresh_piper string bool string
  | Finished response

text \<open>The handler of tts-server up to the choice of branch (lines 58 to 72).\<close>

definition dispatch_tts :: "'v env \<Rightarrow> body \<Rightarrow> 'v state \<Rightarrow> handler \<times> 'v state" where
  "dispatch_tts env data st =
     (let text = text_field data;
          model_name = get_model data
      in case py_float env (get_speed data) of
           Inl e \<Rightarrow> (Finished (Uncaught e), st)
         | Inr speed \<Rightarrow>
             let use_cache = get_use_cache data
             in (case text of
                   None \<Rightarrow> (Finished (Error400 ''Missing text parameter''), st)
                 | Some txt \<Rightarrow>
                     if txt = [] then (Finished (Error400 ''Missing text parameter''), st)
                     else
                       let cache_file = cache_file_tts env txt model_name speed
                       in if use_cache
                          then
                            let st1 = emit (CacheExists cache_file) st
                            in if cache_dir st1 cache_file \<noteq> None
                               then (Cached_tts model_name cache_file, st1)
                               else (Fresh_tts txt model_name speed use_cache cache_file, st1)
                          else (Fresh_tts txt model_name speed use_cache cache_file, st)))"

text \<open>The handler of piper-tts up to the choice of branch (lines 31 to 43).\<close>

definition dispatch_piper :: "'v env \<Rightarrow> body \<Rightarrow> 'v state \<Rightarrow> handler \<times> 'v state" where
  "dispatch_piper env data st =
     (let text = get_text data;
          use_cache = get_use_cache data
      in if text = [] then (Finished (Error400 ''Text is required''), st)
         else
           let cache_file = cache_file_piper env text
           in if use_cache
              then
                let st1 = emit (CacheExists cache_file) st
                in if cache_dir st1 cache_file \<noteq> None
                   then (Cached_piper cache_file, st1)
                   else (Fresh_piper text use_cache cache_file, st1)
              else (Fresh_piper text use_cache cache_file, st))"

fun handler_step :: "'v env \<Rightarrow> handler \<Rightarrow> 'v state \<Rightarrow> handler \<times> 'v state" where
  "handler_step env (Arrived_tts data) st = dispatch_tts env data st"
| "handler_step env (Cached_tts model_name cache_file) st =
     (case serve_cached_tts env model_name cache_file st of (r, st1) \<Rightarrow> (Finished r, st1))"
| "handler_step env (Fresh_tts text model_name speed use_cache cache_file) st =
     (case synthesize_fresh_tts env text model_name speed use_cache cache_file st of
        (r, st1) \<Rightarrow> (Finished r, st1))"
| "handler_step env (Arrived_piper data) st = dispatch_piper env data st"
| "handler_step env (Cached_piper cache_file) st =
     (case serve_cached_piper env cache_file st of (r, st1) \<Rightarrow> (Finished r, st1))"
| "handler_step env (Fresh_piper text use_cache cache_file) st =
     (case synthesize_fresh_piper env text use_cache cache_file st of
        (r, st1) \<Rightarrow> (Finished r, st1))"
| "handler_step env (Finished r) st = (Finished r, st)"



section \<open>A sample deployment\<close>

text \<open>
  A concrete environment for evaluating the handlers: the digest stand-ins return their
  input (so they have no collisions), one model file is present besides the default one,
  a voice is named by its path, the backend fails on the text \<open>boom\<close> and otherwise
  returns four bytes, and the header reader reports one frame per byte at 3 frames per
  second.
\<close>

definition sample_env :: "string env" where
  "sample_env =
     \<lparr> md5_hexdigest = (\<lambda>s. s),
       sha256_hexdigest = (\<lambda>s. s),
       str_float = (\<lambda>x. if x = 1 then ''1.0'' else if x = 2 then ''2.0''
                         else if x = 0 then ''0.0'' else ''-1.0''),
       parse_float = (\<lambda>s. if s = ''1.0'' then Some 1 else if s = ''2.0'' then Some 2 else None),
       models_dir_path = (\<lambda>f. ''models/'' @ f),
       cache_dir_path = (\<lambda>f. ''cache/'' @ f),
       model_file_exists = (\<lambda>p. p = ''models/en_US-lessac-medium.onnx'' \<or> p = ''models/c.onnx''),
       PiperVoice_load = (\<lambda>p. Inr p),
       startup_voice = ''models/en_US-lessac-medium.onnx'',
       voice_synthesize = (\<lambda>v t l. if t = ''boom'' then Inl (External ''synthesis failed'')
                                    else Inr [82, 73, 70, 70]),
       voice_synthesize_wav = (\<lambda>v t. if t = ''boom'' then Inl (External ''synthesis failed'')
                                      else Inr [82, 73, 70, 70]),
       wave_write_exit = (\<lambda>e. External ''# channels not specified''),
       wave_open = (\<lambda>bs. if bs = [] then Inl (External ''unexpected end of file'')
                          else Inr (length bs, 3)) \<rparr>"

definition cold_state :: "string state" where
  "cold_state = \<lparr> cache_dir = Map.empty, loaded_models = Map.empty, trace = [] \<rparr>"

definition request :: "string \<Rightarrow> body" where
  "request t =
     \<lparr> text_field = Some t, model_field = None, speed_field = None, use_cache_field = None \<rparr>"

text \<open>The state each server is in after it has answered \<open>request ''hi''\<close> from
  \<open>cold_state\<close>.\<close>

definition tts_after_hi :: "string state" where
  "tts_after_hi =
     \<lparr> cache_dir = [''cache/hi:en_US-lessac-medium:1.0.wav'' \<mapsto> [82, 73, 70, 70]],
       loaded_models = [''en_US-lessac-medium'' \<mapsto> ''models/en_US-lessac-medium.onnx''],
       trace = [CacheExists ''cache/hi:en_US-lessac-medium:1.0.wav'',
                ModelFileExists ''models/en_US-lessac-medium.onnx'',
                PiperLoad ''models/en_US-lessac-medium.onnx'',
                Synthesize ''models/en_US-lessac-medium.onnx'' ''hi'' 1,
                CacheWrite ''cache/hi:en_US-lessac-medium:1.0.wav'' [82, 73, 70, 70]] \<rparr>"

definition piper_after_hi :: "string state" where
  "piper_after_hi =
     \<lparr> cache_dir = [''cache/hi.wav'' \<mapsto> [82, 73, 70, 70]],
       loaded_models = Map.empty,
       trace = [CacheExists ''cache/hi.wav'',
                SynthesizeWav ''models/en_US-lessac-medium.onnx'' ''hi'',
                CacheMakedirs,
                CacheWrite ''cache/hi.wav'' [82, 73, 70, 70]] \<rparr>"

definition request_with ::
  "string \<Rightarrow> string option \<Rightarrow> json option \<Rightarrow> bool option \<Rightarrow> body" where
  "request_with t m s u =
     \<lparr> text_field = Some t, model_field = m, speed_field = s, use_cache_field = u \<rparr>"

section \<open>Evaluation of the sample deployment\<close>

lemma py_round2_sample: "py_round2 (4 / 3) = 133 / 100"
  by code_simp

lemma hex_sample: "hex [82, 73, 70, 70] = ''52494646''"
  by code_simp

lemmas handler_defs =
  synthesize_tts_def serve_cached_tts_def synthesize_fresh_tts_def load_model_def
  synthesize_piper_def serve_cached_piper_def synthesize_fresh_piper_def
  dispatch_tts_def dispatch_piper_def
  cache_file_tts_def cache_key_tts_def cache_key_input_tts_def
  cache_file_piper_def cache_key_piper_def
  get_model_def get_speed_def get_use_cache_def get_text_def
  py_float_def duration_of_def emit_def write_cache_file_def Let_def

lemmas sample_defs =
  sample_env_def cold_state_def request_def request_with_def tts_after_hi_def
  piper_after_hi_def py_round2_sample hex_sample




section \<open>Basic facts\<close>

lemma new_events_same [simp]: "new_events st st = []"
  by (simp add: new_events_def)

lemma emit_simps [simp]:
  "cache_dir (emit e st) = cache_dir st"
  "loaded_models (emit e st) = loaded_models st"
  "trace (emit e st) = trace st @ [e]"
  by (simp_all add: emit_def)

lemma write_cache_file_simps [simp]:
  "cache_dir (write_cache_file f bs st) = (cache_dir st)(f \<mapsto> bs)"
  "loaded_models (write_cache_file f bs st) = loaded_models st"
  "trace (write_cache_file f bs st) = trace st @ [CacheWrite f bs]"
  by (simp_all add: write_cache_file_def emit_def)

lemma new_events_append [simp]:
  "trace st' = trace st @ evs \<Longrightarrow> new_events st st' = evs"
  by (simp add: new_events_def)






lemma model_event_not_other:
  "is_model_event e \<Longrightarrow> \<not> is_synthesis_event e \<and> \<not> is_cache_event e"
  by (cases e) simp_all

lemma filter_model_events:
  "\<forall>e\<in>set evs. is_model_event e \<Longrightarrow> filter is_synthesis_event evs = []"
  by (auto simp: filter_empty_conv model_event_not_other)

lemma only_event_of_filter:
  assumes "e \<in> set evs" "is_synthesis_event e" "filter is_synthesis_event evs = [x]"
  shows "e = x"
proof -
  from assms(1,2) have "e \<in> set (filter is_synthesis_event evs)" by simp
  then show ?thesis unfolding assms(3) by simp
qed

lemma no_event_of_filter:
  assumes "e \<in> set evs" "is_synthesis_event e" "filter is_synthesis_event evs = []"
  shows False
proof -
  from assms(1,2) have "e \<in> set (filter is_synthesis_event evs)" by simp
  then show ?thesis unfolding assms(3) by simp
qed

section \<open>Digest inputs\<close>

text \<open>A string cut at its last occurrence of a character is cut in one way only.\<close>

lemma split_at_last:
  assumes "c \<notin> set a" "c \<notin> set b" "x @ c # a = y @ c # b"
  shows "x = y \<and> a = b"
proof -
  have "rev a @ c # rev x = rev b @ c # rev y"
    using assms(3) by (metis rev.simps(2) rev_append append_assoc append_Cons append_Nil)
  then have "takeWhile (\<lambda>z. z \<noteq> c) (rev a @ c # rev x)
           = takeWhile (\<lambda>z. z \<noteq> c) (rev b @ c # rev y)"
    by simp
  moreover have "takeWhile (\<lambda>z. z \<noteq> c) (rev a @ c # rev x) = rev a"
    using assms(1) by (auto simp: takeWhile_tail)
  moreover have "takeWhile (\<lambda>z. z \<noteq> c) (rev b @ c # rev y) = rev b"
    using assms(2) by (auto simp: takeWhile_tail)
  ultimately have "a = b" by simp
  with assms(3) show ?thesis by simp
qed

lemma cache_key_input_tts_inj:
  assumes "CHR '':'' \<notin> set m1" "CHR '':'' \<notin> set m2"
      and "CHR '':'' \<notin> set (str_float env s1)" "CHR '':'' \<notin> set (str_float env s2)"
      and "cache_key_input_tts env t1 m1 s1 = cache_key_input_tts env t2 m2 s2"
  shows "t1 = t2 \<and> m1 = m2 \<and> str_float env s1 = str_float env s2"
proof -
  have eq: "(t1 @ CHR '':'' # m1) @ CHR '':'' # str_float env s1
          = (t2 @ CHR '':'' # m2) @ CHR '':'' # str_float env s2"
    using assms(5) by (simp add: cache_key_input_tts_def)
  from split_at_last [OF assms(3) assms(4) eq]
  have a: "t1 @ CHR '':'' # m1 = t2 @ CHR '':'' # m2"
    and b: "str_float env s1 = str_float env s2"
    by simp_all
  from split_at_last [OF assms(1) assms(2) a] b show ?thesis by simp
qed

lemma cache_key_input_tts_one_field:
  "cache_key_input_tts env t1 m s = cache_key_input_tts env t2 m s \<Longrightarrow> t1 = t2"
  "cache_key_input_tts env t m1 s = cache_key_input_tts env t m2 s \<Longrightarrow> m1 = m2"
  "cache_key_input_tts env t m s1 = cache_key_input_tts env t m s2
     \<Longrightarrow> str_float env s1 = str_float env s2"
  by (simp_all add: cache_key_input_tts_def)

section \<open>Model registry\<close>

lemma load_model_loaded:
  "loaded_models st name = Some v \<Longrightarrow> load_model env name st = (Inr v, st)"
  by (simp add: load_model_def)

lemma load_model_registers:
  "load_model env name st = (Inr v, st1) \<Longrightarrow> loaded_models st1 name = Some v"
  by (auto simp: load_model_def emit_def Let_def split: option.splits if_splits sum.splits)

lemma load_model_keeps:
  "loaded_models st name = Some v \<Longrightarrow> loaded_models (snd (load_model env n st)) name = Some v"
  by (auto simp: load_model_def emit_def Let_def split: option.splits sum.splits)

lemma load_models_keeps:
  "loaded_models st name = Some v \<Longrightarrow> loaded_models (load_models env names st) name = Some v"
  by (induction names arbitrary: st) (simp_all add: load_model_keeps)

lemma load_model_frame:
  assumes "load_model env m st = (r, st1)"
  shows "cache_dir st1 = cache_dir st
         \<and> (\<exists>evs. trace st1 = trace st @ evs \<and> (\<forall>e\<in>set evs. is_model_event e))"
  using assms
  by (auto simp: load_model_def Let_def emit_def split: option.splits if_splits sum.splits)

lemma load_model_emit:
  "fst (load_model env m (emit e st)) = fst (load_model env m st)"
  by (auto simp: load_model_def Let_def emit_def split: option.splits if_splits sum.splits)

lemma load_model_missing:
  assumes "loaded_models st m = None" "\<not> model_file_exists env (models_dir_path env (m @ ''.onnx''))"
  shows "fst (load_model env m st)
         = Inl (FileNotFoundError (''Model not found: '' @ models_dir_path env (m @ ''.onnx'')))"
  using assms by (simp add: load_model_def Let_def)

text \<open>
  C7. Once \<open>load_model\<close> has returned a voice for a name, every later call for that name,
  whatever other names were resolved in between, returns the same voice and leaves the
  whole state as it was: the model file is not tested again and Piper is not asked to load.
\<close>

theorem load_model_idempotent:
  assumes "load_model env name st = (Inr v, st1)"
  shows "load_model env name (load_models env names st1) = (Inr v, load_models env names st1)
         \<and> new_events (load_models env names st1)
              (snd (load_model env name (load_models env names st1))) = []"
proof -
  have "loaded_models st1 name = Some v"
    using assms by (rule load_model_registers)
  then have "loaded_models (load_models env names st1) name = Some v"
    by (rule load_models_keeps)
  then have "load_model env name (load_models env names st1)
           = (Inr v, load_models env names st1)"
    by (rule load_model_loaded)
  then show ?thesis by simp
qed

theorem load_model_idempotent_witness:
  "load_model sample_env ''c'' cold_state
     = (Inr ''models/c.onnx'',
        \<lparr> cache_dir = Map.empty, loaded_models = [''c'' \<mapsto> ''models/c.onnx''],
          trace = [ModelFileExists ''models/c.onnx'', PiperLoad ''models/c.onnx''] \<rparr>)
   \<and> fst (load_model sample_env ''c''
        (load_models sample_env [''en_US-lessac-medium'', ''c'']
           \<lparr> cache_dir = Map.empty, loaded_models = [''c'' \<mapsto> ''models/c.onnx''],
             trace = [ModelFileExists ''models/c.onnx'', PiperLoad ''models/c.onnx''] \<rparr>))
     = Inr ''models/c.onnx''"
proof -
  have h: "load_model sample_env ''c'' cold_state
     = (Inr ''models/c.onnx'',
        \<lparr> cache_dir = Map.empty, loaded_models = [''c'' \<mapsto> ''models/c.onnx''],
          trace = [ModelFileExists ''models/c.onnx'', PiperLoad ''models/c.onnx''] \<rparr>)"
    by (simp add: load_model_def sample_env_def cold_state_def emit_def Let_def)
  show ?thesis
    using h load_model_idempotent [OF h, of "[''en_US-lessac-medium'', ''c'']"] by simp
qed

section \<open>The handlers, branch by branch\<close>

lemma synthesize_tts_bad_speed:
  "py_float env (get_speed data) = Inl e
     \<Longrightarrow> synthesize_tts env data st = (Uncaught e, st)"
  by (simp add: synthesize_tts_def)

lemma synthesize_tts_invalid:
  assumes "py_float env (get_speed data) = Inr s" "text_field data = None \<or> text_field data = Some []"
  shows "synthesize_tts env data st = (Error400 ''Missing text parameter'', st)"
  using assms by (auto simp: synthesize_tts_def)

lemma synthesize_piper_invalid:
  assumes "get_text data = []"
  shows "synthesize_piper env data st = (Error400 ''Text is required'', st)"
  using assms by (simp add: synthesize_piper_def)

lemma synthesize_tts_cases:
  obtains (bad_speed) e where "py_float env (get_speed data) = Inl e"
    | (no_text) s where "py_float env (get_speed data) = Inr s"
        "text_field data = None \<or> text_field data = Some []"
    | (valid) s t where "py_float env (get_speed data) = Inr s"
        "text_field data = Some t" "t \<noteq> []"
proof (cases "py_float env (get_speed data)")
  case (Inl e)
  then show ?thesis by (rule bad_speed)
next
  case (Inr s)
  then show ?thesis
    using no_text valid by (cases "text_field data") auto
qed

lemma synthesize_tts_valid:
  assumes "text_field data = Some txt" "txt \<noteq> []" "py_float env (get_speed data) = Inr s"
  shows "synthesize_tts env data st =
     (if get_use_cache data
      then (if cache_dir st (cache_file_tts env txt (get_model data) s) \<noteq> None
            then serve_cached_tts env (get_model data) (cache_file_tts env txt (get_model data) s)
                   (emit (CacheExists (cache_file_tts env txt (get_model data) s)) st)
            else synthesize_fresh_tts env txt (get_model data) s True
                   (cache_file_tts env txt (get_model data) s)
                   (emit (CacheExists (cache_file_tts env txt (get_model data) s)) st))
      else synthesize_fresh_tts env txt (get_model data) s False
             (cache_file_tts env txt (get_model data) s) st)"
  using assms by (simp add: synthesize_tts_def Let_def)


lemma synthesize_piper_valid:
  assumes "get_text data \<noteq> []"
  shows "synthesize_piper env data st =
     (if get_use_cache data
      then (if cache_dir st (cache_file_piper env (get_text data)) \<noteq> None
            then serve_cached_piper env (cache_file_piper env (get_text data))
                   (emit (CacheExists (cache_file_piper env (get_text data))) st)
            else synthesize_fresh_piper env (get_text data) True
                   (cache_file_piper env (get_text data))
                   (emit (CacheExists (cache_file_piper env (get_text data))) st))
      else synthesize_fresh_piper env (get_text data) False
             (cache_file_piper env (get_text data)) st)"
  using assms by (simp add: synthesize_piper_def Let_def)


subsection \<open>The cache-hit branch\<close>

lemma serve_cached_tts_Ok:
  assumes "serve_cached_tts env m f st = (Ok200 a d mo c, st')"
  shows "\<exists>bs fr dur. cache_dir st f = Some bs \<and> a = hex bs \<and> wave_open env bs = Inr fr
           \<and> duration_of fr = Inr dur \<and> d = py_round2 dur \<and> mo = Some m \<and> c
           \<and> st' = emit (CacheWaveOpen f) (emit (CacheRead f) st)"
  using assms by (auto simp: serve_cached_tts_def Let_def split: option.splits sum.splits)


lemma serve_cached_tts_effects:
  assumes "serve_cached_tts env m f st = (r, st')"
  shows "cache_dir st' = cache_dir st
         \<and> (\<exists>evs. trace st' = trace st @ evs \<and> filter is_synthesis_event evs = [])"
  using assms by (auto simp: serve_cached_tts_def Let_def split: option.splits sum.splits)

lemma serve_cached_piper_Ok:
  assumes "serve_cached_piper env f st = (Ok200 a d mo c, st')"
  shows "\<exists>bs fr dur. cache_dir st f = Some bs \<and> a = hex bs \<and> wave_open env bs = Inr fr
           \<and> duration_of fr = Inr dur \<and> d = py_round2 dur \<and> mo = None \<and> c
           \<and> st' = emit (CacheWaveOpen f) (emit (CacheRead f) st)"
  using assms by (auto simp: serve_cached_piper_def Let_def split: option.splits sum.splits)


lemma serve_cached_piper_effects:
  assumes "serve_cached_piper env f st = (r, st')"
  shows "cache_dir st' = cache_dir st
         \<and> (\<exists>evs. trace st' = trace st @ evs \<and> filter is_synthesis_event evs = [])"
  using assms by (auto simp: serve_cached_piper_def Let_def split: option.splits sum.splits)

subsection \<open>The synthesis branch\<close>

lemma synthesize_fresh_tts_Ok:
  assumes "synthesize_fresh_tts env txt m s uc f st = (Ok200 a d mo c, st')"
  shows "\<exists>v st1 bs fr dur. load_model env m st = (Inr v, st1) \<and> s \<noteq> 0
           \<and> voice_synthesize env v txt (1 / s) = Inr bs \<and> a = hex bs
           \<and> wave_open env bs = Inr fr \<and> duration_of fr = Inr dur \<and> d = py_round2 dur
           \<and> mo = Some m \<and> \<not> c
           \<and> st' = (if uc then write_cache_file f bs (emit (Synthesize v txt (1 / s)) st1)
                    else emit (Synthesize v txt (1 / s)) st1)"
  using assms
  by (auto simp: synthesize_fresh_tts_def Let_def split: prod.splits sum.splits if_splits)

lemma synthesize_fresh_tts_effects:
  assumes "synthesize_fresh_tts env txt m s uc f st = (r, st')"
  shows "\<exists>evs. trace st' = trace st @ evs
           \<and> filter is_synthesis_event evs
               = (case fst (load_model env m st) of
                    Inl e \<Rightarrow> []
                  | Inr v \<Rightarrow> if s = 0 then [] else [Synthesize v txt (1 / s)])
           \<and> (\<not> uc \<longrightarrow> cache_dir st' = cache_dir st \<and> (\<forall>e\<in>set evs. \<not> is_cache_event e))"
proof -
  obtain lr st1 where l: "load_model env m st = (lr, st1)" by (cases "load_model env m st")
  from load_model_frame [OF l] obtain evs1 where
    e1: "cache_dir st1 = cache_dir st" "trace st1 = trace st @ evs1"
        "\<forall>e\<in>set evs1. is_model_event e"
    by blast
  have f1: "filter is_synthesis_event evs1 = []"
    using e1(3) by (rule filter_model_events)
  have c1: "\<forall>e\<in>set evs1. \<not> is_cache_event e"
    using e1(3) model_event_not_other by blast
  show ?thesis
    using assms l e1(1,2) f1 c1
    by (auto simp: synthesize_fresh_tts_def Let_def split: sum.splits if_splits)
qed

lemma synthesize_fresh_tts_load_fails:
  assumes "fst (load_model env m st) = Inl e"
  shows "fst (synthesize_fresh_tts env txt m s uc f st) = Error500 e
         \<and> cache_dir (snd (synthesize_fresh_tts env txt m s uc f st)) = cache_dir st"
proof -
  obtain st1 where l: "load_model env m st = (Inl e, st1)"
    using assms by (cases "load_model env m st") simp
  from load_model_frame [OF l] l show ?thesis
    by (simp add: synthesize_fresh_tts_def)
qed

lemma synthesize_fresh_tts_backend_fails:
  assumes "fst (load_model env m st) = Inr v" "s \<noteq> 0" "voice_synthesize env v txt (1 / s) = Inl e"
  shows "fst (synthesize_fresh_tts env txt m s uc f st) = Error500 e
         \<and> cache_dir (snd (synthesize_fresh_tts env txt m s uc f st)) = cache_dir st"
proof -
  obtain st1 where l: "load_model env m st = (Inr v, st1)"
    using assms(1) by (cases "load_model env m st") simp
  from load_model_frame [OF l] l assms(2,3) show ?thesis
    by (simp add: synthesize_fresh_tts_def Let_def)
qed

lemma synthesize_fresh_piper_Ok:
  assumes "synthesize_fresh_piper env txt uc f st = (Ok200 a d mo c, st')"
  shows "\<exists>bs fr dur. voice_synthesize_wav env (startup_voice env) txt = Inr bs \<and> a = hex bs
           \<and> wave_open env bs = Inr fr \<and> duration_of fr = Inr dur \<and> d = py_round2 dur
           \<and> mo = None \<and> \<not> c
           \<and> st' = (if uc then write_cache_file f bs
                              (emit CacheMakedirs (emit (SynthesizeWav (startup_voice env) txt) st))
                    else emit (SynthesizeWav (startup_voice env) txt) st)"
  using assms
  by (auto simp: synthesize_fresh_piper_def Let_def split: prod.splits sum.splits if_splits)

lemma synthesize_fresh_piper_effects:
  assumes "synthesize_fresh_piper env txt uc f st = (r, st')"
  shows "\<exists>evs. trace st' = trace st @ evs
           \<and> filter is_synthesis_event evs = [SynthesizeWav (startup_voice env) txt]
           \<and> (\<not> uc \<longrightarrow> cache_dir st' = cache_dir st \<and> (\<forall>e\<in>set evs. \<not> is_cache_event e))"
  using assms
  by (auto simp: synthesize_fresh_piper_def Let_def split: sum.splits if_splits)

lemma synthesize_fresh_piper_backend_fails:
  assumes "voice_synthesize_wav env (startup_voice env) txt = Inl e"
  shows "fst (synthesize_fresh_piper env txt uc f st) = Uncaught e
         \<and> cache_dir (snd (synthesize_fresh_piper env txt uc f st)) = cache_dir st"
  using assms by (simp add: synthesize_fresh_piper_def Let_def)

subsection \<open>Whole requests\<close>







text \<open>The backend calls a request makes: none, or exactly one.\<close>

lemma synthesize_tts_synthesis_events:
  assumes "synthesize_tts env data st = (r, st')"
      and "py_float env (get_speed data) = Inr s"
      and "text_field data = Some t" "t \<noteq> []"
  shows "\<exists>evs. trace st' = trace st @ evs
      \<and> (filter is_synthesis_event evs = [] \<and> (\<forall>a d m. r \<noteq> Ok200 a d m False)
          \<or> s \<noteq> 0 \<and> (\<exists>v. filter is_synthesis_event evs = [Synthesize v t (1 / s)]))"
proof -
  note unf = synthesize_tts_valid [OF assms(3,4,2)]
  let ?f = "cache_file_tts env t (get_model data) s"
  let ?st1 = "emit (CacheExists ?f) st"
  show ?thesis
  proof (cases "get_use_cache data \<and> cache_dir st ?f \<noteq> None")
    case True
    then have c: "serve_cached_tts env (get_model data) ?f ?st1 = (r, st')"
      using assms(1) unfolding unf by simp
    from serve_cached_tts_effects [OF c] obtain evs where
      e: "trace st' = trace ?st1 @ evs" "filter is_synthesis_event evs = []" by blast
    have "\<forall>a d m. r \<noteq> Ok200 a d m False"
      using serve_cached_tts_Ok c by fastforce
    with e show ?thesis by (intro exI [of _ "CacheExists ?f # evs"]) simp
  next
    case False
    then obtain st0 uc where c: "synthesize_fresh_tts env t (get_model data) s uc ?f st0 = (r, st')"
      and st0: "st0 = st \<or> st0 = ?st1"
      using assms(1) unfolding unf by (auto split: if_splits)
    from synthesize_fresh_tts_effects [OF c] obtain evs where
      e: "trace st' = trace st0 @ evs"
         "filter is_synthesis_event evs
               = (case fst (load_model env (get_model data) st0) of
                    Inl e \<Rightarrow> []
                  | Inr v \<Rightarrow> if s = 0 then [] else [Synthesize v t (1 / s)])"
      by blast
    have ok: "s \<noteq> 0 \<and> (\<exists>v. fst (load_model env (get_model data) st0) = Inr v)"
      if "r = Ok200 a d m False" for a d m
      using synthesize_fresh_tts_Ok c that by fastforce
    have alt: "filter is_synthesis_event evs = [] \<and> (\<forall>a d m. r \<noteq> Ok200 a d m False)
          \<or> s \<noteq> 0 \<and> (\<exists>v. filter is_synthesis_event evs = [Synthesize v t (1 / s)])"
      using e(2) ok by (auto split: sum.splits if_splits)
    from st0 show ?thesis
    proof
      assume "st0 = st"
      with e(1) alt show ?thesis by blast
    next
      assume "st0 = ?st1"
      with e(1) alt show ?thesis
        by (intro exI [of _ "CacheExists ?f # evs"]) simp
    qed
  qed
qed

lemma synthesize_piper_synthesis_events:
  assumes "synthesize_piper env data st = (r, st')" "get_text data \<noteq> []"
  shows "\<exists>evs. trace st' = trace st @ evs
      \<and> (filter is_synthesis_event evs = [] \<and> (\<forall>a d m. r \<noteq> Ok200 a d m False)
          \<or> filter is_synthesis_event evs = [SynthesizeWav (startup_voice env) (get_text data)])"
proof -
  note unf = synthesize_piper_valid [OF assms(2)]
  let ?f = "cache_file_piper env (get_text data)"
  let ?st1 = "emit (CacheExists ?f) st"
  show ?thesis
  proof (cases "get_use_cache data \<and> cache_dir st ?f \<noteq> None")
    case True
    then have c: "serve_cached_piper env ?f ?st1 = (r, st')"
      using assms(1) unfolding unf by simp
    from serve_cached_piper_effects [OF c] obtain evs where
      e: "trace st' = trace ?st1 @ evs" "filter is_synthesis_event evs = []" by blast
    have "\<forall>a d m. r \<noteq> Ok200 a d m False"
      using serve_cached_piper_Ok c by fastforce
    with e show ?thesis by (intro exI [of _ "CacheExists ?f # evs"]) simp
  next
    case False
    then obtain st0 uc where c: "synthesize_fresh_piper env (get_text data) uc ?f st0 = (r, st')"
      and st0: "st0 = st \<or> st0 = ?st1"
      using assms(1) unfolding unf by (auto split: if_splits)
    from synthesize_fresh_piper_effects [OF c] obtain evs where
      e: "trace st' = trace st0 @ evs"
         "filter is_synthesis_event evs = [SynthesizeWav (startup_voice env) (get_text data)]"
      by blast
    from st0 show ?thesis
    proof
      assume "st0 = st"
      with e show ?thesis by blast
    next
      assume "st0 = ?st1"
      with e show ?thesis
        by (intro exI [of _ "CacheExists ?f # evs"]) simp
    qed
  qed
qed

text \<open>The file a request looks up is the one its key names.\<close>

lemma synthesize_tts_probes_key:
  assumes "text_field data = Some t" "t \<noteq> []" "py_float env (get_speed data) = Inr s"
      and "get_use_cache data"
  shows "\<exists>evs. new_events st (snd (synthesize_tts env data st))
           = CacheExists (cache_dir_path env (cache_key_tts env t (get_model data) s @ ''.wav''))
             # evs"
proof -
  let ?f = "cache_file_tts env t (get_model data) s"
  let ?st1 = "emit (CacheExists ?f) st"
  obtain r st' where c: "synthesize_tts env data st = (r, st')"
    by (cases "synthesize_tts env data st")
  have "\<exists>evs. trace st' = trace ?st1 @ evs"
    using c assms(4) unfolding synthesize_tts_valid [OF assms(1,2,3)]
    by (auto split: if_splits dest: serve_cached_tts_effects synthesize_fresh_tts_effects)
  then obtain evs where "trace st' = trace st @ CacheExists ?f # evs" by auto
  then have "new_events st st' = CacheExists ?f # evs" by simp
  then show ?thesis unfolding c by (simp add: cache_file_tts_def)
qed

lemma synthesize_piper_probes_key:
  assumes "get_text data \<noteq> []" "get_use_cache data"
  shows "\<exists>evs. new_events st (snd (synthesize_piper env data st))
           = CacheExists (cache_dir_path env (cache_key_piper env (get_text data) @ ''.wav''))
             # evs"
proof -
  let ?f = "cache_file_piper env (get_text data)"
  let ?st1 = "emit (CacheExists ?f) st"
  obtain r st' where c: "synthesize_piper env data st = (r, st')"
    by (cases "synthesize_piper env data st")
  have "\<exists>evs. trace st' = trace ?st1 @ evs"
    using c assms(2) unfolding synthesize_piper_valid [OF assms(1)]
    by (auto split: if_splits dest: serve_cached_piper_effects synthesize_fresh_piper_effects)
  then obtain evs where "trace st' = trace st @ CacheExists ?f # evs" by auto
  then have "new_events st st' = CacheExists ?f # evs" by simp
  then show ?thesis unfolding c by (simp add: cache_file_piper_def)
qed

section \<open>Cache keys\<close>

text \<open>
  C1, as the code has it. In tts-server the key is the MD5 digest of
  \<open>text:model:speed\<close>. Two requests that get the same key either agree in text, model and
  formatted speed, or their two digest inputs are different strings on which MD5 collides,
  provided that the model names and the formatted speeds hold no colon, or that the two
  requests agree in two of the three fields. In piper-tts the key is the SHA-256 digest
  of the text alone, so equal keys mean equal texts or a SHA-256 collision on the two texts.
  In both servers the file a request with \<open>use_cache\<close> true looks up first is the one named
  by that key, whatever the state of the server.
\<close>

theorem cache_key_separates:
  assumes "CHR '':'' \<notin> set m1 \<and> CHR '':'' \<notin> set m2
             \<and> CHR '':'' \<notin> set (str_float env s1) \<and> CHR '':'' \<notin> set (str_float env s2)
           \<or> m1 = m2 \<and> s1 = s2 \<or> t1 = t2 \<and> s1 = s2 \<or> t1 = t2 \<and> m1 = m2"
  shows "(cache_key_tts env t1 m1 s1 = cache_key_tts env t2 m2 s2 \<longrightarrow>
            t1 = t2 \<and> m1 = m2 \<and> str_float env s1 = str_float env s2
            \<or> cache_key_input_tts env t1 m1 s1 \<noteq> cache_key_input_tts env t2 m2 s2
               \<and> md5_hexdigest env (cache_key_input_tts env t1 m1 s1)
                 = md5_hexdigest env (cache_key_input_tts env t2 m2 s2))
         \<and> (cache_key_piper env t1 = cache_key_piper env t2 \<longrightarrow>
              t1 = t2 \<or> t1 \<noteq> t2 \<and> sha256_hexdigest env t1 = sha256_hexdigest env t2)
         \<and> (text_field data = Some t1 \<and> t1 \<noteq> [] \<and> get_use_cache data \<longrightarrow>
              (py_float env (get_speed data) = Inr s1 \<longrightarrow>
                 (\<exists>evs. new_events st (snd (synthesize_tts env data st))
                    = CacheExists (cache_dir_path env
                        (cache_key_tts env t1 (get_model data) s1 @ ''.wav'')) # evs))
              \<and> (\<exists>evs. new_events st (snd (synthesize_piper env data st))
                    = CacheExists (cache_dir_path env (cache_key_piper env t1 @ ''.wav''))
                      # evs))"
proof (intro conjI impI; (elim conjE)?)
  assume keys: "cache_key_tts env t1 m1 s1 = cache_key_tts env t2 m2 s2"
  show "t1 = t2 \<and> m1 = m2 \<and> str_float env s1 = str_float env s2
        \<or> cache_key_input_tts env t1 m1 s1 \<noteq> cache_key_input_tts env t2 m2 s2
           \<and> md5_hexdigest env (cache_key_input_tts env t1 m1 s1)
             = md5_hexdigest env (cache_key_input_tts env t2 m2 s2)"
  proof (cases "cache_key_input_tts env t1 m1 s1 = cache_key_input_tts env t2 m2 s2")
    case True
    then show ?thesis
      using assms cache_key_input_tts_inj [of m1 m2 env s1 s2 t1 t2]
        cache_key_input_tts_one_field [of env]
      by blast
  next
    case False
    then show ?thesis using keys by (simp add: cache_key_tts_def)
  qed
next
  assume "cache_key_piper env t1 = cache_key_piper env t2"
  then show "t1 = t2 \<or> t1 \<noteq> t2 \<and> sha256_hexdigest env t1 = sha256_hexdigest env t2"
    by (auto simp: cache_key_piper_def)
next
  assume "text_field data = Some t1" "t1 \<noteq> []" "get_use_cache data"
    "py_float env (get_speed data) = Inr s1"
  then show "\<exists>evs. new_events st (snd (synthesize_tts env data st))
                    = CacheExists (cache_dir_path env
                        (cache_key_tts env t1 (get_model data) s1 @ ''.wav'')) # evs"
    by (simp add: synthesize_tts_probes_key)
next
  assume a: "text_field data = Some t1" "t1 \<noteq> []" "get_use_cache data"
  then have "get_text data = t1" by (simp add: get_text_def)
  with a synthesize_piper_probes_key [where data = data and env = env and st = st]
  show "\<exists>evs. new_events st (snd (synthesize_piper env data st))
                    = CacheExists (cache_dir_path env (cache_key_piper env t1 @ ''.wav''))
                      # evs"
    by simp
qed

theorem cache_key_separates_witness:
  "CHR '':'' \<notin> set ''c'' \<and> CHR '':'' \<notin> set ''d''
   \<and> CHR '':'' \<notin> set (str_float sample_env 1) \<and> CHR '':'' \<notin> set (str_float sample_env 2)
   \<and> cache_key_tts sample_env ''a:b'' ''c'' 1 \<noteq> cache_key_tts sample_env ''a:b'' ''d'' 2
   \<and> cache_key_tts sample_env ''a:b'' ''c'' 1 = cache_key_tts sample_env ''a:b'' ''c'' 1
   \<and> cache_key_piper sample_env ''a'' \<noteq> cache_key_piper sample_env ''b''
   \<and> text_field (request_with ''a:b'' (Some ''c'') None None) = Some ''a:b''
   \<and> get_use_cache (request_with ''a:b'' (Some ''c'') None None)
   \<and> py_float sample_env (get_speed (request_with ''a:b'' (Some ''c'') None None)) = Inr 1
   \<and> hd (new_events tts_after_hi
           (snd (synthesize_tts sample_env (request_with ''a:b'' (Some ''c'') None None)
                   tts_after_hi)))
      = CacheExists ''cache/a:b:c:1.0.wav''"
proof -
  let ?d = "request_with ''a:b'' (Some ''c'') None None"
  have h: "CHR '':'' \<notin> set ''c'' \<and> CHR '':'' \<notin> set ''d''
             \<and> CHR '':'' \<notin> set (str_float sample_env 1) \<and> CHR '':'' \<notin> set (str_float sample_env 2)
           \<or> ''c'' = ''d'' \<and> (1::pyfloat) = 2 \<or> ''a:b'' = ''a:b'' \<and> (1::pyfloat) = 2
           \<or> ''a:b'' = ''a:b'' \<and> ''c'' = ''d''"
    by (simp add: sample_env_def)
  note sep = cache_key_separates [OF h, where data = ?d and st = tts_after_hi]
  have md5: "\<And>x y. md5_hexdigest sample_env x = md5_hexdigest sample_env y \<longleftrightarrow> x = y"
    by (simp add: sample_env_def)
  have d: "text_field ?d = Some ''a:b''" "''a:b'' \<noteq> []" "get_use_cache ?d"
      "py_float sample_env (get_speed ?d) = Inr 1" "get_model ?d = ''c''"
    by (simp_all add: handler_defs sample_defs)
  have k: "cache_dir_path sample_env (cache_key_tts sample_env ''a:b'' ''c'' 1 @ ''.wav'')
           = ''cache/a:b:c:1.0.wav''"
    by (simp add: handler_defs sample_defs)
  have "cache_key_tts sample_env ''a:b'' ''c'' 1 \<noteq> cache_key_tts sample_env ''a:b'' ''d'' 2"
    using sep md5 by auto
  moreover have "cache_key_piper sample_env ''a'' \<noteq> cache_key_piper sample_env ''b''"
    by (simp add: cache_key_piper_def sample_env_def)
  moreover from sep d have "\<exists>evs. new_events tts_after_hi (snd (synthesize_tts sample_env ?d tts_after_hi))
         = CacheExists (cache_dir_path sample_env
                        (cache_key_tts sample_env ''a:b'' ''c'' 1 @ ''.wav'')) # evs"
    by metis
  then have "hd (new_events tts_after_hi (snd (synthesize_tts sample_env ?d tts_after_hi)))
      = CacheExists ''cache/a:b:c:1.0.wav''"
    unfolding k by auto
  ultimately show ?thesis
    using d by (simp add: sample_env_def)
qed

text \<open>
  C1 as stated fails: a colon inside the fields moves the boundary between text and model,
  so two requests that differ in text and in model are given the same digest input and
  hence the same key, whatever the digest. In piper-tts a request that names another model
  and speed is served exactly as the one that names none, from the same cache file.
\<close>

theorem cache_key_collision_on_separator:
  "cache_key_tts sample_env ''a:b'' ''c'' 1 = cache_key_tts sample_env ''a'' ''b:c'' 1
   \<and> cache_key_input_tts sample_env ''a:b'' ''c'' 1 = ''a:b:c:1.0''
   \<and> cache_key_input_tts sample_env ''a'' ''b:c'' 1 = ''a:b:c:1.0''
   \<and> synthesize_piper sample_env
        \<lparr> text_field = Some ''hi'', model_field = Some ''c'', speed_field = Some (JNum 2),
          use_cache_field = None \<rparr> cold_state
     = synthesize_piper sample_env (request ''hi'') cold_state
   \<and> cache_file_piper sample_env ''hi'' = ''cache/hi.wav''"
  by (simp add: cache_key_tts_def cache_key_input_tts_def sample_env_def synthesize_piper_def
      request_def cache_file_piper_def cache_key_piper_def get_text_def get_use_cache_def)

section \<open>Validation\<close>



text \<open>
  C6, as the code has it. A request whose text is absent or empty is answered 400 with the
  state untouched (no cache lookup, no cache write, no model resolution): in piper-tts
  always, in tts-server whenever the speed can be coerced to a float. The sign of the speed
  is not examined by either handler.
\<close>

theorem empty_text_rejected_first:
  assumes "text_field data = None \<or> text_field data = Some []"
  shows "synthesize_piper env data st = (Error400 ''Text is required'', st)
         \<and> (py_float env (get_speed data) = Inr x
              \<longrightarrow> synthesize_tts env data st = (Error400 ''Missing text parameter'', st))"
  using assms by (auto simp: synthesize_piper_def synthesize_tts_def get_text_def)

theorem empty_text_rejected_first_witness:
  "text_field (request []) = Some []
   \<and> synthesize_piper sample_env (request []) cold_state
       = (Error400 ''Text is required'', cold_state)
   \<and> synthesize_tts sample_env (request []) cold_state
       = (Error400 ''Missing text parameter'', cold_state)"
proof -
  have h: "text_field (request []) = None \<or> text_field (request []) = Some []"
    by (simp add: request_def)
  have f: "py_float sample_env (get_speed (request [])) = Inr 1"
    by (simp add: request_def py_float_def get_speed_def)
  show ?thesis
    using empty_text_rejected_first [OF h, of sample_env cold_state 1] f
    by (simp add: request_def)
qed

text \<open>
  C6 as stated fails for the speed: a request with speed \<open>-1\<close> is not rejected. The cache is
  looked up, the model is loaded, the backend is called with length scale \<open>-1\<close>, the result
  is written to the cache and answered 200.
\<close>

theorem nonpositive_speed_not_rejected:
  "synthesize_tts sample_env
     \<lparr> text_field = Some ''hi'', model_field = None, speed_field = Some (JNum (- 1)),
       use_cache_field = None \<rparr> cold_state
   = (Ok200 ''52494646'' (133 / 100) (Some ''en_US-lessac-medium'') False,
      \<lparr> cache_dir = [''cache/hi:en_US-lessac-medium:-1.0.wav'' \<mapsto> [82, 73, 70, 70]],
        loaded_models = [''en_US-lessac-medium'' \<mapsto> ''models/en_US-lessac-medium.onnx''],
        trace = [CacheExists ''cache/hi:en_US-lessac-medium:-1.0.wav'',
                 ModelFileExists ''models/en_US-lessac-medium.onnx'',
                 PiperLoad ''models/en_US-lessac-medium.onnx'',
                 Synthesize ''models/en_US-lessac-medium.onnx'' ''hi'' (- 1),
                 CacheWrite ''cache/hi:en_US-lessac-medium:-1.0.wav'' [82, 73, 70, 70]] \<rparr>)"
  by (simp add: synthesize_tts_def cold_state_def sample_env_def py_float_def
      get_model_def get_speed_def get_use_cache_def cache_file_tts_def cache_key_tts_def cache_key_input_tts_def emit_def
      synthesize_fresh_tts_def load_model_def Let_def write_cache_file_def duration_of_def
      py_round2_sample hex_sample)

section \<open>Duration\<close>




section \<open>Speed\<close>

text \<open>
  C9, as the code has it. In tts-server every backend call made for a request with text
  \<open>txt\<close> and speed \<open>s\<close> is \<open>voice.synthesize(txt, _, length_scale = 1/s)\<close> with \<open>s\<close> not
  zero, and a fresh 200 answer comes from exactly one such call. In piper-tts the only
  backend call a request makes is \<open>voice.synthesize_wav(txt, _)\<close>, which is given no
  length scale.
\<close>

theorem speed_is_inverse_length_scale:
  assumes "synthesize_tts env data st = (r, st')"
      and "py_float env (get_speed data) = Inr s"
      and "text_field data = Some txt"
  shows "(\<forall>e\<in>set (new_events st st'). is_synthesis_event e
            \<longrightarrow> s \<noteq> 0 \<and> (\<exists>v. e = Synthesize v txt (1 / s)))
         \<and> (\<forall>a d m. r = Ok200 a d m False
              \<longrightarrow> s \<noteq> 0 \<and> (\<exists>v. filter is_synthesis_event (new_events st st')
                                    = [Synthesize v txt (1 / s)]))
         \<and> (\<forall>e\<in>set (new_events st (snd (synthesize_piper env data st))). is_synthesis_event e
              \<longrightarrow> e = SynthesizeWav (startup_voice env) txt)"
proof -
  have tts: "(\<forall>e\<in>set (new_events st st'). is_synthesis_event e
            \<longrightarrow> s \<noteq> 0 \<and> (\<exists>v. e = Synthesize v txt (1 / s)))
         \<and> (\<forall>a d m. r = Ok200 a d m False
              \<longrightarrow> s \<noteq> 0 \<and> (\<exists>v. filter is_synthesis_event (new_events st st')
                                    = [Synthesize v txt (1 / s)]))"
  proof (cases "txt = []")
    case True
    then have "synthesize_tts env data st = (Error400 ''Missing text parameter'', st)"
      using assms(2,3) by (simp add: synthesize_tts_invalid)
    with assms(1) show ?thesis by auto
  next
    case False
    from synthesize_tts_synthesis_events [OF assms False]
    obtain evs where ev: "trace st' = trace st @ evs"
      and alt: "filter is_synthesis_event evs = [] \<and> (\<forall>a d m. r \<noteq> Ok200 a d m False)
          \<or> s \<noteq> 0 \<and> (\<exists>v. filter is_synthesis_event evs = [Synthesize v txt (1 / s)])"
      by blast
    have ne: "new_events st st' = evs" using ev by simp
    show ?thesis
      unfolding ne using alt only_event_of_filter no_event_of_filter by blast
  qed
  have piper: "\<forall>e\<in>set (new_events st (snd (synthesize_piper env data st))). is_synthesis_event e
              \<longrightarrow> e = SynthesizeWav (startup_voice env) txt"
  proof (cases "txt = []")
    case True
    then have "get_text data = []" using assms(3) by (simp add: get_text_def)
    then show ?thesis by (simp add: synthesize_piper_invalid)
  next
    case False
    have t: "get_text data = txt" using assms(3) by (simp add: get_text_def)
    obtain r2 st2 where c: "synthesize_piper env data st = (r2, st2)"
      by (cases "synthesize_piper env data st")
    from synthesize_piper_synthesis_events [OF c] False t
    obtain evs where ev: "trace st2 = trace st @ evs"
      and alt: "filter is_synthesis_event evs = []
          \<or> filter is_synthesis_event evs = [SynthesizeWav (startup_voice env) txt]"
      by auto
    have ne: "new_events st st2 = evs" using ev by simp
    show ?thesis
      unfolding c snd_conv ne using alt only_event_of_filter no_event_of_filter by blast
  qed
  from tts piper show ?thesis by blast
qed

theorem speed_is_inverse_length_scale_witness:
  "py_float sample_env (get_speed (request_with ''hi'' None (Some (JNum 2)) None)) = Inr 2
   \<and> text_field (request_with ''hi'' None (Some (JNum 2)) None) = Some ''hi''
   \<and> fst (synthesize_tts sample_env (request_with ''hi'' None (Some (JNum 2)) None) cold_state)
       = Ok200 ''52494646'' (133 / 100) (Some ''en_US-lessac-medium'') False
   \<and> (\<exists>v. filter is_synthesis_event
             (new_events cold_state
                (snd (synthesize_tts sample_env (request_with ''hi'' None (Some (JNum 2)) None)
                        cold_state)))
           = [Synthesize v ''hi'' (1 / 2)])"
proof -
  let ?d = "request_with ''hi'' None (Some (JNum 2)) None"
  have r: "synthesize_tts sample_env ?d cold_state
           = (fst (synthesize_tts sample_env ?d cold_state),
              snd (synthesize_tts sample_env ?d cold_state))"
    by simp
  have s: "py_float sample_env (get_speed ?d) = Inr 2"
    by (simp add: handler_defs sample_defs)
  have t: "text_field ?d = Some ''hi''"
    by (simp add: request_with_def)
  have f: "fst (synthesize_tts sample_env ?d cold_state)
           = Ok200 ''52494646'' (133 / 100) (Some ''en_US-lessac-medium'') False"
    by (simp add: handler_defs sample_defs)
  from speed_is_inverse_length_scale [OF r s t]
  have "\<forall>a d m. fst (synthesize_tts sample_env ?d cold_state) = Ok200 a d m False
          \<longrightarrow> (\<exists>v. filter is_synthesis_event
                       (new_events cold_state (snd (synthesize_tts sample_env ?d cold_state)))
                     = [Synthesize v ''hi'' (1 / 2)])"
    by blast
  with f have "\<exists>v. filter is_synthesis_event
                       (new_events cold_state (snd (synthesize_tts sample_env ?d cold_state)))
                     = [Synthesize v ''hi'' (1 / 2)]"
    by blast
  with f s t show ?thesis by blast
qed

text \<open>
  C9 as stated fails in piper-tts: a request with speed 2 is answered exactly as the same
  request without a speed, by a backend call that carries no length scale.
\<close>

theorem piper_ignores_speed:
  "synthesize_piper sample_env (request_with ''hi'' None (Some (JNum 2)) None) cold_state
   = (Ok200 ''52494646'' (133 / 100) None False, piper_after_hi)
   \<and> trace piper_after_hi
     = [CacheExists ''cache/hi.wav'', SynthesizeWav ''models/en_US-lessac-medium.onnx'' ''hi'',
        CacheMakedirs, CacheWrite ''cache/hi.wav'' [82, 73, 70, 70]]
   \<and> synthesize_piper sample_env (request ''hi'') cold_state
     = (Ok200 ''52494646'' (133 / 100) None False, piper_after_hi)"
  by (simp add: handler_defs sample_defs)

section \<open>Failure of the synthesis branch\<close>

text \<open>
  C5. For a request with a text that is not served from the cache: in tts-server, when the
  model has no file the answer is the 500 error carrying \<open>Model not found\<close>, when
  \<open>load_model\<close> raises otherwise or the backend raises the answer is the 500 error carrying
  that exception; in piper-tts, when the backend raises, the exception leaves the handler.
  In each case the files of the cache directory are those from before the request.
\<close>

theorem failed_compute_leaves_cache:
  assumes "text_field data = Some txt" "txt \<noteq> []"
  shows "(py_float env (get_speed data) = Inr s
          \<and> \<not> (get_use_cache data \<and> cache_dir st (cache_file_tts env txt (get_model data) s) \<noteq> None)
          \<longrightarrow>
            (loaded_models st (get_model data) = None
             \<and> \<not> model_file_exists env (models_dir_path env (get_model data @ ''.onnx''))
             \<longrightarrow> fst (synthesize_tts env data st)
                   = Error500 (FileNotFoundError
                       (''Model not found: '' @ models_dir_path env (get_model data @ ''.onnx'')))
                 \<and> cache_dir (snd (synthesize_tts env data st)) = cache_dir st)
          \<and> (fst (load_model env (get_model data) st) = Inl e
             \<longrightarrow> fst (synthesize_tts env data st) = Error500 e
                 \<and> cache_dir (snd (synthesize_tts env data st)) = cache_dir st)
          \<and> (fst (load_model env (get_model data) st) = Inr v \<and> s \<noteq> 0
               \<and> voice_synthesize env v txt (1 / s) = Inl e
             \<longrightarrow> fst (synthesize_tts env data st) = Error500 e
                 \<and> cache_dir (snd (synthesize_tts env data st)) = cache_dir st))
       \<and> (\<not> (get_use_cache data \<and> cache_dir st (cache_file_piper env txt) \<noteq> None)
            \<and> voice_synthesize_wav env (startup_voice env) txt = Inl e
          \<longrightarrow> fst (synthesize_piper env data st) = Uncaught e
              \<and> cache_dir (snd (synthesize_piper env data st)) = cache_dir st)"
proof (intro conjI impI; (elim conjE)?)
  assume sp: "py_float env (get_speed data) = Inr s"
    and miss: "\<not> (get_use_cache data \<and> cache_dir st (cache_file_tts env txt (get_model data) s) \<noteq> None)"
  note unf = synthesize_tts_valid [OF assms sp]
  {
    fix e'
    assume "fst (load_model env (get_model data) st) = Inl e'"
    then have "fst (synthesize_tts env data st) = Error500 e'
               \<and> cache_dir (snd (synthesize_tts env data st)) = cache_dir st"
      using miss unfolding unf
      by (auto simp: synthesize_fresh_tts_load_fails load_model_emit)
  } note lf = this
  {
    assume "loaded_models st (get_model data) = None"
      "\<not> model_file_exists env (models_dir_path env (get_model data @ ''.onnx''))"
    from load_model_missing [OF this] lf
    show "fst (synthesize_tts env data st)
          = Error500 (FileNotFoundError
              (''Model not found: '' @ models_dir_path env (get_model data @ ''.onnx'')))"
      and "cache_dir (snd (synthesize_tts env data st)) = cache_dir st"
      by blast+
  }
  {
    assume "fst (load_model env (get_model data) st) = Inl e"
    from lf [OF this]
    show "fst (synthesize_tts env data st) = Error500 e"
      and "cache_dir (snd (synthesize_tts env data st)) = cache_dir st"
      by blast+
  }
  {
    assume "fst (load_model env (get_model data) st) = Inr v" "s \<noteq> 0"
      "voice_synthesize env v txt (1 / s) = Inl e"
    then have "fst (synthesize_tts env data st) = Error500 e
               \<and> cache_dir (snd (synthesize_tts env data st)) = cache_dir st"
      using miss unfolding unf
      by (auto simp: synthesize_fresh_tts_backend_fails load_model_emit)
    then show "fst (synthesize_tts env data st) = Error500 e"
      and "cache_dir (snd (synthesize_tts env data st)) = cache_dir st"
      by blast+
  }
next
  assume miss: "\<not> (get_use_cache data \<and> cache_dir st (cache_file_piper env txt) \<noteq> None)"
    and fail: "voice_synthesize_wav env (startup_voice env) txt = Inl e"
  have t: "get_text data = txt" using assms by (simp add: get_text_def)
  have ne: "get_text data \<noteq> []" using assms t by simp
  have "fst (synthesize_piper env data st) = Uncaught e
        \<and> cache_dir (snd (synthesize_piper env data st)) = cache_dir st"
    using miss fail unfolding synthesize_piper_valid [OF ne] t
    by (auto simp: synthesize_fresh_piper_backend_fails)
  then show "fst (synthesize_piper env data st) = Uncaught e"
    and "cache_dir (snd (synthesize_piper env data st)) = cache_dir st"
    by blast+
qed

theorem failed_compute_leaves_cache_witness:
  "text_field (request ''boom'') = Some ''boom'' \<and> ''boom'' \<noteq> []
   \<and> fst (synthesize_tts sample_env (request ''boom'') cold_state)
       = Error500 (External ''synthesis failed'')
   \<and> cache_dir (snd (synthesize_tts sample_env (request ''boom'') cold_state)) = Map.empty
   \<and> fst (synthesize_piper sample_env (request ''boom'') cold_state)
       = Uncaught (External ''synthesis failed'')
   \<and> cache_dir (snd (synthesize_piper sample_env (request ''boom'') cold_state)) = Map.empty
   \<and> fst (synthesize_tts sample_env (request_with ''boom'' (Some ''missing'') None None) cold_state)
       = Error500 (FileNotFoundError ''Model not found: models/missing.onnx'')
   \<and> cache_dir (snd (synthesize_tts sample_env
        (request_with ''boom'' (Some ''missing'') None None) cold_state)) = Map.empty"
proof -
  have h1: "text_field (request ''boom'') = Some ''boom''" by (simp add: request_def)
  have h2: "text_field (request_with ''boom'' (Some ''missing'') None None) = Some ''boom''"
    by (simp add: request_with_def)
  have ne: "''boom'' \<noteq> []" by simp
  note a = failed_compute_leaves_cache [OF h1 ne, where env = sample_env and st = cold_state
      and s = 1 and v = "''models/en_US-lessac-medium.onnx''"
      and e = "External ''synthesis failed''"]
  note b = failed_compute_leaves_cache [OF h2 ne, where env = sample_env and st = cold_state
      and s = 1]
  have pa: "py_float sample_env (get_speed (request ''boom'')) = Inr 1"
       "get_model (request ''boom'') = ''en_US-lessac-medium''"
       "fst (load_model sample_env ''en_US-lessac-medium'' cold_state)
          = Inr ''models/en_US-lessac-medium.onnx''"
       "voice_synthesize sample_env ''models/en_US-lessac-medium.onnx'' ''boom'' (1 / 1)
          = Inl (External ''synthesis failed'')"
       "voice_synthesize_wav sample_env (startup_voice sample_env) ''boom''
          = Inl (External ''synthesis failed'')"
       "cache_dir cold_state = Map.empty"
    by (simp_all add: handler_defs sample_defs)
  have pb: "py_float sample_env (get_speed (request_with ''boom'' (Some ''missing'') None None))
              = Inr 1"
       "get_model (request_with ''boom'' (Some ''missing'') None None) = ''missing''"
       "loaded_models cold_state ''missing'' = None"
       "\<not> model_file_exists sample_env (models_dir_path sample_env (''missing'' @ ''.onnx''))"
       "models_dir_path sample_env (''missing'' @ ''.onnx'') = ''models/missing.onnx''"
    by (simp_all add: handler_defs sample_defs)
  from a pa have "fst (synthesize_tts sample_env (request ''boom'') cold_state)
       = Error500 (External ''synthesis failed'')
   \<and> cache_dir (snd (synthesize_tts sample_env (request ''boom'') cold_state)) = Map.empty
   \<and> fst (synthesize_piper sample_env (request ''boom'') cold_state)
       = Uncaught (External ''synthesis failed'')
   \<and> cache_dir (snd (synthesize_piper sample_env (request ''boom'') cold_state)) = Map.empty"
    by simp
  moreover from b pb pa(6)
  have "fst (synthesize_tts sample_env (request_with ''boom'' (Some ''missing'') None None) cold_state)
       = Error500 (FileNotFoundError ''Model not found: models/missing.onnx'')
   \<and> cache_dir (snd (synthesize_tts sample_env
        (request_with ''boom'' (Some ''missing'') None None) cold_state)) = Map.empty"
    by simp
  ultimately show ?thesis using h1 by simp
qed

section \<open>Requests that opt out of the cache\<close>

text \<open>
  C4. With \<open>use_cache\<close> false, in both servers: the files of the cache directory are
  unchanged, the request makes no call on the cache directory at all (no existence test,
  no read, no write), the answer is never marked cached, and a request with a text runs
  the synthesis branch even when its cache file exists: in piper-tts the backend is called
  exactly once, in tts-server exactly once provided the model resolves and the speed is
  not zero.
\<close>

theorem use_cache_false_bypasses_cache:
  assumes "\<not> get_use_cache data"
  shows "cache_dir (snd (synthesize_tts env data st)) = cache_dir st
       \<and> (\<forall>e\<in>set (new_events st (snd (synthesize_tts env data st))). \<not> is_cache_event e)
       \<and> (\<forall>a d m. fst (synthesize_tts env data st) \<noteq> Ok200 a d m True)
       \<and> (text_field data = Some txt \<and> txt \<noteq> [] \<and> py_float env (get_speed data) = Inr s \<longrightarrow>
            synthesize_tts env data st
              = synthesize_fresh_tts env txt (get_model data) s False
                  (cache_file_tts env txt (get_model data) s) st
            \<and> (s \<noteq> 0 \<and> fst (load_model env (get_model data) st) = Inr v \<longrightarrow>
                 filter is_synthesis_event (new_events st (snd (synthesize_tts env data st)))
                   = [Synthesize v txt (1 / s)]))
       \<and> cache_dir (snd (synthesize_piper env data st)) = cache_dir st
       \<and> (\<forall>e\<in>set (new_events st (snd (synthesize_piper env data st))). \<not> is_cache_event e)
       \<and> (\<forall>a d m. fst (synthesize_piper env data st) \<noteq> Ok200 a d m True)
       \<and> (get_text data \<noteq> [] \<longrightarrow>
            synthesize_piper env data st
              = synthesize_fresh_piper env (get_text data) False
                  (cache_file_piper env (get_text data)) st
            \<and> filter is_synthesis_event (new_events st (snd (synthesize_piper env data st)))
                = [SynthesizeWav (startup_voice env) (get_text data)])"
proof -
  have tts_frame: "cache_dir (snd (synthesize_tts env data st)) = cache_dir st
       \<and> (\<forall>e\<in>set (new_events st (snd (synthesize_tts env data st))). \<not> is_cache_event e)
       \<and> (\<forall>a d m. fst (synthesize_tts env data st) \<noteq> Ok200 a d m True)"
  proof (cases rule: synthesize_tts_cases [of env data])
    case (bad_speed e)
    then show ?thesis by (simp add: synthesize_tts_bad_speed)
  next
    case (no_text s)
    then show ?thesis by (simp add: synthesize_tts_invalid)
  next
    case (valid s t)
    let ?f = "cache_file_tts env t (get_model data) s"
    obtain r st' where c: "synthesize_fresh_tts env t (get_model data) s False ?f st = (r, st')"
      by (cases "synthesize_fresh_tts env t (get_model data) s False ?f st")
    have u: "synthesize_tts env data st = (r, st')"
      using assms c by (simp add: synthesize_tts_valid [OF valid(2,3,1)])
    from synthesize_fresh_tts_effects [OF c] obtain evs where
      e: "trace st' = trace st @ evs" "cache_dir st' = cache_dir st"
         "\<forall>e\<in>set evs. \<not> is_cache_event e"
      by auto
    have "\<forall>a d m. r \<noteq> Ok200 a d m True"
      using synthesize_fresh_tts_Ok c by fastforce
    with e show ?thesis unfolding u by simp
  qed
  have tts_compute: "synthesize_tts env data st
              = synthesize_fresh_tts env txt (get_model data) s False
                  (cache_file_tts env txt (get_model data) s) st
            \<and> (s \<noteq> 0 \<and> fst (load_model env (get_model data) st) = Inr v \<longrightarrow>
                 filter is_synthesis_event (new_events st (snd (synthesize_tts env data st)))
                   = [Synthesize v txt (1 / s)])"
    if v: "text_field data = Some txt" "txt \<noteq> []" "py_float env (get_speed data) = Inr s"
  proof -
    let ?f = "cache_file_tts env txt (get_model data) s"
    obtain r st' where c: "synthesize_fresh_tts env txt (get_model data) s False ?f st = (r, st')"
      by (cases "synthesize_fresh_tts env txt (get_model data) s False ?f st")
    have u: "synthesize_tts env data st = (r, st')"
      using assms c by (simp add: synthesize_tts_valid [OF v])
    from synthesize_fresh_tts_effects [OF c] obtain evs where
      e: "trace st' = trace st @ evs"
         "filter is_synthesis_event evs
               = (case fst (load_model env (get_model data) st) of
                    Inl e \<Rightarrow> []
                  | Inr v \<Rightarrow> if s = 0 then [] else [Synthesize v txt (1 / s)])"
      by auto
    show ?thesis unfolding u c using e by simp
  qed
  have piper_frame: "cache_dir (snd (synthesize_piper env data st)) = cache_dir st
       \<and> (\<forall>e\<in>set (new_events st (snd (synthesize_piper env data st))). \<not> is_cache_event e)
       \<and> (\<forall>a d m. fst (synthesize_piper env data st) \<noteq> Ok200 a d m True)
       \<and> (get_text data \<noteq> [] \<longrightarrow>
            synthesize_piper env data st
              = synthesize_fresh_piper env (get_text data) False
                  (cache_file_piper env (get_text data)) st
            \<and> filter is_synthesis_event (new_events st (snd (synthesize_piper env data st)))
                = [SynthesizeWav (startup_voice env) (get_text data)])"
  proof (cases "get_text data = []")
    case True
    then show ?thesis by (simp add: synthesize_piper_invalid)
  next
    case False
    let ?f = "cache_file_piper env (get_text data)"
    obtain r st' where c: "synthesize_fresh_piper env (get_text data) False ?f st = (r, st')"
      by (cases "synthesize_fresh_piper env (get_text data) False ?f st")
    have u: "synthesize_piper env data st = (r, st')"
      using assms c by (simp add: synthesize_piper_valid [OF False])
    from synthesize_fresh_piper_effects [OF c] obtain evs where
      e: "trace st' = trace st @ evs" "cache_dir st' = cache_dir st"
         "\<forall>e\<in>set evs. \<not> is_cache_event e"
         "filter is_synthesis_event evs = [SynthesizeWav (startup_voice env) (get_text data)]"
      by auto
    have "\<forall>a d m. r \<noteq> Ok200 a d m True"
      using synthesize_fresh_piper_Ok c by fastforce
    with e False show ?thesis unfolding u c by simp
  qed
  from tts_frame tts_compute piper_frame show ?thesis by blast
qed

theorem use_cache_false_bypasses_cache_witness:
  "\<not> get_use_cache (request_with ''hi'' None None (Some False))
   \<and> cache_dir tts_after_hi ''cache/hi:en_US-lessac-medium:1.0.wav'' = Some [82, 73, 70, 70]
   \<and> cache_dir (snd (synthesize_tts sample_env (request_with ''hi'' None None (Some False))
                       tts_after_hi)) = cache_dir tts_after_hi
   \<and> filter is_synthesis_event
        (new_events tts_after_hi
           (snd (synthesize_tts sample_env (request_with ''hi'' None None (Some False))
                   tts_after_hi)))
       = [Synthesize ''models/en_US-lessac-medium.onnx'' ''hi'' 1]
   \<and> cache_dir (snd (synthesize_tts sample_env (request_with ''hi'' None None (Some False))
                       cold_state)) = Map.empty
   \<and> cache_dir (snd (synthesize_piper sample_env (request_with ''hi'' None None (Some False))
                       cold_state)) = Map.empty"
proof -
  let ?d = "request_with ''hi'' None None (Some False)"
  have h: "\<not> get_use_cache ?d" by (simp add: get_use_cache_def request_with_def)
  note a = use_cache_false_bypasses_cache [OF h, where env = sample_env and st = tts_after_hi
      and ?txt = "''hi''" and s = 1 and v = "''models/en_US-lessac-medium.onnx''"]
  note b = use_cache_false_bypasses_cache [OF h, where env = sample_env and st = cold_state
      and ?txt = "''hi''" and s = 1 and v = "''models/en_US-lessac-medium.onnx''"]
  have p: "text_field ?d = Some ''hi''" "py_float sample_env (get_speed ?d) = Inr 1"
      "fst (load_model sample_env (get_model ?d) tts_after_hi)
         = Inr ''models/en_US-lessac-medium.onnx''"
      "''hi'' \<noteq> []" "(1::pyfloat) \<noteq> 0"
    by (simp_all add: handler_defs sample_defs)
  have q: "cache_dir cold_state = Map.empty"
      "cache_dir tts_after_hi ''cache/hi:en_US-lessac-medium:1.0.wav'' = Some [82, 73, 70, 70]"
    by (simp_all add: sample_defs)
  from a have a1: "cache_dir (snd (synthesize_tts sample_env ?d tts_after_hi))
                   = cache_dir tts_after_hi"
    by blast
  from a p have a2: "filter is_synthesis_event
        (new_events tts_after_hi (snd (synthesize_tts sample_env ?d tts_after_hi)))
       = [Synthesize ''models/en_US-lessac-medium.onnx'' ''hi'' (1 / 1)]"
    by blast
  from b have b1: "cache_dir (snd (synthesize_tts sample_env ?d cold_state)) = cache_dir cold_state"
    by blast
  from b have b2: "cache_dir (snd (synthesize_piper sample_env ?d cold_state))
                   = cache_dir cold_state"
    by blast
  from h q a1 a2 b1 b2 show ?thesis by simp
qed

section \<open>Repeating a request\<close>



section \<open>Identical requests, in turn and overlapping\<close>



text \<open>The two steps of a handler, taken without interruption, are the handler.\<close>

lemma handler_two_steps_tts:
  "handler_step env (fst (handler_step env (Arrived_tts data) st))
     (snd (handler_step env (Arrived_tts data) st))
   = (Finished (fst (synthesize_tts env data st)), snd (synthesize_tts env data st))"
  by (simp add: dispatch_tts_def synthesize_tts_def Let_def
      split: sum.splits option.splits prod.splits)

lemma handler_two_steps_piper:
  "handler_step env (fst (handler_step env (Arrived_piper data) st))
     (snd (handler_step env (Arrived_piper data) st))
   = (Finished (fst (synthesize_piper env data st)), snd (synthesize_piper env data st))"
  by (simp add: dispatch_piper_def synthesize_piper_def Let_def
      split: sum.splits option.splits prod.splits)




end
